theory Spec2Isabelle
  imports Complex_Main
begin

section \<open>Python values and exceptions\<close>

text \<open>
  The arguments of the constructors are arbitrary Python objects. The embedding keeps the
  kinds of object that the code distinguishes: \<^verbatim>\<open>isinstance(roi_size, (list, tuple))\<close>
  separates lists and tuples from everything else. A string is an ordered sequence too, and
  is rejected by that test all the same. A Python \<^verbatim>\<open>float\<close> literal such as \<^verbatim>\<open>0.25\<close>
  is kept as the real number it denotes (the constructor only stores it).
\<close>

datatype pyval =
    PyNone
  | PyBool bool
  | PyInt int
  | PyFloat real
  | PyStr string
  | PyList "pyval list"
  | PyTuple "pyval list"

text \<open>An exception that leaves a function is the \<open>Inl\<close> branch of its result.\<close>

datatype error =
    AssertionError string
  | TypeError string
  | NotImplementedError string
  | IndexError string
  | RuntimeError string

text \<open>\<^verbatim>\<open>isinstance(v, (list, tuple))\<close>.\<close>

fun isinstance_list_tuple :: "pyval \<Rightarrow> bool" where
  "isinstance_list_tuple (PyList xs) = True"
| "isinstance_list_tuple (PyTuple xs) = True"
| "isinstance_list_tuple v = False"

text \<open>\<^verbatim>\<open>len(v)\<close> of a list or tuple; no length for the other values.\<close>

fun py_len :: "pyval \<Rightarrow> nat option" where
  "py_len (PyList xs) = Some (length xs)"
| "py_len (PyTuple xs) = Some (length xs)"
| "py_len v = None"


section \<open>Inferers (monai/inferers/inferer.py)\<close>

subsection \<open>The abstract base class\<close>

text \<open>
  \<^verbatim>\<open>Inferer.__call__\<close> is abstract; its body raises \<^verbatim>\<open>NotImplementedError\<close>.
  A method is embedded as a function from the object (and the arguments) to the pair of
  its result and the object after the call, since a Python method may assign to the
  fields of \<^verbatim>\<open>self\<close>.
\<close>

definition Inferer_call :: "'self \<Rightarrow> 'i \<Rightarrow> 'n \<Rightarrow> (error + 'o) \<times> 'self" where
  "Inferer_call self inputs network =
     (Inl (NotImplementedError ''subclass will implement the operations.''), self)"

subsection \<open>RegularInferer\<close>

text \<open>\<^verbatim>\<open>RegularInferer\<close> has no field of its own.\<close>

datatype RegularInferer = RegularInferer_object

definition RegularInferer_init :: "RegularInferer" where
  "RegularInferer_init = RegularInferer_object"

text \<open>\<^verbatim>\<open>return network(inputs)\<close>\<close>

definition RegularInferer_call :: "RegularInferer \<Rightarrow> 'i \<Rightarrow> ('i \<Rightarrow> 'o) \<Rightarrow> 'o \<times> RegularInferer" where
  "RegularInferer_call self inputs network = (network inputs, self)"

subsection \<open>SlidingWindowInferer\<close>

record SlidingWindowInferer =
  roi_size :: pyval
  sw_batch_size :: pyval
  overlap :: pyval
  blend_mode :: pyval

text \<open>
  The body of \<^verbatim>\<open>__init__\<close> (lines 67 to 72): one assertion on \<^verbatim>\<open>roi_size\<close>, then
  four assignments. Assertions are taken as enabled, the interpreter's default mode.
\<close>

definition SlidingWindowInferer_init ::
  "pyval \<Rightarrow> pyval \<Rightarrow> pyval \<Rightarrow> pyval \<Rightarrow> error + SlidingWindowInferer" where
  "SlidingWindowInferer_init roi sw ov bm =
     (if isinstance_list_tuple roi
      then Inr \<lparr>roi_size = roi, sw_batch_size = sw, overlap = ov, blend_mode = bm\<rparr>
      else Inl (AssertionError ''must specify the roi size for SlidingWindow.''))"

text \<open>
  The signature of \<^verbatim>\<open>__init__\<close> (line 66):
  \<^verbatim>\<open>def __init__(self, roi_size, sw_batch_size=1, overlap=0.25, blend_mode="constant")\<close>.
  An argument the caller leaves out is \<open>None\<close>; a parameter with a default takes it,
  and a parameter without one makes the call raise \<^verbatim>\<open>TypeError\<close> before the body runs.
\<close>

definition SlidingWindowInferer_new ::
  "pyval option \<Rightarrow> pyval option \<Rightarrow> pyval option \<Rightarrow> pyval option
     \<Rightarrow> error + SlidingWindowInferer" where
  "SlidingWindowInferer_new roi sw ov bm =
     (case roi of
        None \<Rightarrow> Inl (TypeError ''__init__() missing 1 required positional argument: roi_size'')
      | Some r \<Rightarrow>
          SlidingWindowInferer_init r
            (case sw of None \<Rightarrow> PyInt 1 | Some v \<Rightarrow> v)
            (case ov of None \<Rightarrow> PyFloat 0.25 | Some v \<Rightarrow> v)
            (case bm of None \<Rightarrow> PyStr ''constant'' | Some v \<Rightarrow> v))"

text \<open>
  \<^verbatim>\<open>__call__\<close> hands the input, the four fields and the network to
  \<^verbatim>\<open>sliding_window_inference\<close> of \<^verbatim>\<open>monai/inferers/utils.py\<close>, in the order
  \<^verbatim>\<open>(inputs, roi_size, sw_batch_size, network, overlap, blend_mode)\<close>. That function is
  the parameter \<open>swi\<close> here. The body assigns to no field. The callee is handed the stored
  window shape itself, not a copy, and a list is mutable: so the callee gives, with its
  result, the contents of the window-shape object after the call, and these are the
  contents of the field from then on. The window batch size, the overlap and the blend
  mode are documented as \<^verbatim>\<open>int\<close>, \<^verbatim>\<open>float\<close> and \<^verbatim>\<open>str\<close>, which no callee can change.
\<close>

definition SlidingWindowInferer_call ::
  "('i \<Rightarrow> pyval \<Rightarrow> pyval \<Rightarrow> 'n \<Rightarrow> pyval \<Rightarrow> pyval \<Rightarrow> 'o \<times> pyval)
     \<Rightarrow> SlidingWindowInferer \<Rightarrow> 'i \<Rightarrow> 'n \<Rightarrow> 'o \<times> SlidingWindowInferer" where
  "SlidingWindowInferer_call swi self inputs network =
     (case swi inputs (roi_size self) (sw_batch_size self) network (overlap self)
             (blend_mode self) of
        (out, roi') \<Rightarrow> (out, self\<lparr>roi_size := roi'\<rparr>))"


section \<open>Tensors of the host framework\<close>

text \<open>
  A tensor is the framework's object; the layers read and produce its shape, element type
  and device, and that is what the embedding keeps. Element values are floating-point
  numbers and are left out, and so is the memory layout: a tensor is taken as contiguous
  (what the framework's constructors and convolutions return).
\<close>

datatype dtype = Float16 | Float32 | Float64

datatype device = CPU | CUDA nat

record tensor =
  shape :: "nat list"
  dtype :: dtype
  device :: device

definition numel :: "tensor \<Rightarrow> nat" where
  "numel x = prod_list (shape x)"

text \<open>
  Python indexing of a list or tuple, \<^verbatim>\<open>xs[i]\<close>: a negative index counts from the end,
  an index out of range raises \<^verbatim>\<open>IndexError\<close>.
\<close>

definition py_index :: "'a list \<Rightarrow> int \<Rightarrow> error + 'a" where
  "py_index xs i =
     (if 0 \<le> i \<and> i < int (length xs) then Inr (xs ! nat i)
      else if i < 0 \<and> - int (length xs) \<le> i then Inr (xs ! nat (int (length xs) + i))
      else Inl (IndexError ''index out of range''))"


text \<open>\<^verbatim>\<open>x.size(i)\<close>: the size of one dimension, by the same index rule.\<close>

definition size_at :: "tensor \<Rightarrow> int \<Rightarrow> error + nat" where
  "size_at x i = py_index (shape x) i"

text \<open>
  The framework's inference of the one dimension given as \<open>-1\<close> in \<^verbatim>\<open>view\<close> and
  \<^verbatim>\<open>reshape\<close>. The other sizes multiply to \<open>newsize\<close>; the inferred size is
  \<open>numel div newsize\<close> when that division is exact. When \<open>newsize\<close> is 0 the inferred
  size could be any number, and the framework refuses the request.
\<close>

definition infer_size :: "int list \<Rightarrow> nat \<Rightarrow> error + nat list" where
  "infer_size sz n =
     (if list_ex (\<lambda>d. d < - 1) sz then Inl (RuntimeError ''invalid shape dimension'')
      else if 1 < length (filter (\<lambda>d. d = - 1) sz)
        then Inl (RuntimeError ''only one dimension can be inferred'')
      else
        let newsize = prod_list (map nat (filter (\<lambda>d. d \<noteq> - 1) sz));
            infer = list_ex (\<lambda>d. d = - 1) sz
        in if n = newsize \<or> (infer \<and> 0 < newsize \<and> n mod newsize = 0) then
             (if infer then
                (if newsize = 0
                 then Inl (RuntimeError ''cannot reshape tensor of 0 elements: the unspecified dimension -1 is ambiguous'')
                 else Inr (map (\<lambda>d. if d = - 1 then n div newsize else nat d) sz))
              else Inr (map nat sz))
           else Inl (RuntimeError ''shape is invalid for input size''))"

text \<open>\<^verbatim>\<open>x.view(*sz)\<close> and \<^verbatim>\<open>x.reshape(sz)\<close> of a contiguous tensor.\<close>

definition view :: "tensor \<Rightarrow> int list \<Rightarrow> error + tensor" where
  "view x sz = (case infer_size sz (numel x) of Inl e \<Rightarrow> Inl e | Inr s \<Rightarrow> Inr (x\<lparr>shape := s\<rparr>))"

definition reshape :: "tensor \<Rightarrow> int list \<Rightarrow> error + tensor" where
  "reshape x sz = view x sz"


text \<open>\<^verbatim>\<open>x.to(other)\<close>: a tensor with the element type and device of \<open>other\<close>.\<close>

definition to :: "tensor \<Rightarrow> tensor \<Rightarrow> tensor" where
  "to x other = x\<lparr>dtype := dtype other, device := device other\<rparr>"

text \<open>The common element type of two floating-point tensors is the wider one.\<close>

fun dtype_rank :: "dtype \<Rightarrow> nat" where
  "dtype_rank Float16 = 0"
| "dtype_rank Float32 = 1"
| "dtype_rank Float64 = 2"

definition promote_types :: "dtype \<Rightarrow> dtype \<Rightarrow> dtype" where
  "promote_types a b = (if dtype_rank a \<le> dtype_rank b then b else a)"

text \<open>
  \<^verbatim>\<open>torch.cat(tensors, dim)\<close>. A tensor of shape \<open>[0]\<close> is skipped (the framework keeps
  this for old code that starts from an empty tensor). A tensor without dimensions cannot
  be concatenated. The dimension is wrapped against the first tensor that is not skipped;
  the others must have as many dimensions, the same sizes off the dimension, and the same
  device. The element type of the result is the common one of all tensors of the list,
  the skipped ones included.
\<close>

definition cat_should_skip :: "tensor \<Rightarrow> bool" where
  "cat_should_skip t = (shape t = [0])"

definition maybe_wrap_dim :: "int \<Rightarrow> nat \<Rightarrow> error + nat" where
  "maybe_wrap_dim d n =
     (if - int n \<le> d \<and> d < int n then Inr (nat (if d < 0 then int n + d else d))
      else Inl (IndexError ''Dimension out of range''))"

definition same_except :: "nat \<Rightarrow> nat list \<Rightarrow> nat list \<Rightarrow> bool" where
  "same_except d s t = (length s = length t \<and> s[d := 0] = t[d := 0])"

definition torch_cat :: "tensor list \<Rightarrow> int \<Rightarrow> error + tensor" where
  "torch_cat ts d =
     (if ts = [] then Inl (RuntimeError ''expected a non-empty list of Tensors'')
      else if list_ex (\<lambda>t. shape t = []) ts
        then Inl (RuntimeError ''zero-dimensional tensor cannot be concatenated'')
      else
        (case filter (\<lambda>t. \<not> cat_should_skip t) ts of
           [] \<Rightarrow> Inr ((hd ts)\<lparr>dtype := foldl promote_types (dtype (hd ts)) (map dtype (tl ts))\<rparr>)
         | t0 # rest \<Rightarrow>
             (case maybe_wrap_dim d (length (shape t0)) of
                Inl e \<Rightarrow> Inl e
              | Inr k \<Rightarrow>
                  if \<not> list_all (\<lambda>t. length (shape t) = length (shape t0)) rest
                    then Inl (RuntimeError ''Tensors must have same number of dimensions'')
                  else if \<not> list_all (\<lambda>t. same_except k (shape t0) (shape t)) rest
                    then Inl (RuntimeError ''Sizes of tensors must match except in the concatenation dimension'')
                  else if \<not> list_all (\<lambda>t. device t = device t0) rest
                    then Inl (RuntimeError ''Expected all tensors to be on the same device'')
                  else Inr \<lparr>shape = (shape t0)[k := sum_list (map (\<lambda>t. shape t ! k) (t0 # rest))],
                            dtype = foldl promote_types (dtype (hd ts)) (map dtype (tl ts)),
                            device = device t0\<rparr>)))"



section \<open>Layers (monai/networks/layers/simplelayers.py)\<close>

subsection \<open>SkipConnection\<close>

text \<open>
  The wrapped submodule is an \<^verbatim>\<open>nn.Module\<close> object: it has a state of its own (parameters,
  buffers, whatever its class keeps) and a forward function, which reads that state, may
  change it, and may raise. Calling the module runs the forward function on the current
  state and leaves the module with the state after the call.
\<close>

record 's Module =
  module_state :: 's
  module_forward :: "'s \<Rightarrow> tensor \<Rightarrow> (error + tensor) \<times> 's"

definition Module_call :: "'s Module \<Rightarrow> tensor \<Rightarrow> (error + tensor) \<times> 's Module" where
  "Module_call m x =
     (case module_forward m (module_state m) x of
        (r, st) \<Rightarrow> (r, m\<lparr>module_state := st\<rparr>))"

text \<open>The two fields that \<^verbatim>\<open>__init__\<close> assigns.\<close>

record 's SkipConnection =
  submodule :: "'s Module"
  cat_dim :: int

text \<open>\<^verbatim>\<open>def __init__(self, submodule, cat_dim=1)\<close>\<close>

definition SkipConnection_init :: "'s Module \<Rightarrow> int option \<Rightarrow> 's SkipConnection" where
  "SkipConnection_init sub d =
     \<lparr>submodule = sub, cat_dim = (case d of None \<Rightarrow> 1 | Some k \<Rightarrow> k)\<rparr>"

text \<open>
  \<^verbatim>\<open>return torch.cat([x, self.submodule(x)], self.cat_dim)\<close>. The body assigns to no
  field; the submodule it calls is the object's own, so the object after the call holds
  the submodule as the call left it.
\<close>

definition SkipConnection_forward ::
  "'s SkipConnection \<Rightarrow> tensor \<Rightarrow> (error + tensor) \<times> 's SkipConnection" where
  "SkipConnection_forward self x =
     (case Module_call (submodule self) x of
        (r, m) \<Rightarrow>
          ((case r of
              Inl e \<Rightarrow> Inl e
            | Inr y \<Rightarrow> torch_cat [x, y] (cat_dim self)),
           self\<lparr>submodule := m\<rparr>))"

subsection \<open>Flatten\<close>

datatype Flatten = Flatten_object

text \<open>\<^verbatim>\<open>return x.view(x.size(0), -1)\<close>\<close>

definition Flatten_forward :: "Flatten \<Rightarrow> tensor \<Rightarrow> (error + tensor) \<times> Flatten" where
  "Flatten_forward self x =
     ((case size_at x 0 of
         Inl e \<Rightarrow> Inl e
       | Inr b \<Rightarrow> view x [int b, - 1]),
      self)"

subsection \<open>GaussianFilter\<close>







section \<open>Sliding-window inference (monai/inferers/utils.py, from the specification)\<close>

text \<open>
  \<^verbatim>\<open>sliding_window_inference\<close> is imported from \<^verbatim>\<open>monai/inferers/utils.py\<close>, which is not
  among the sources. The definitions of this section follow the specification's
  description of the sliding-window variant, on the tensors' shapes: a network is a
  callable from a tensor to a tensor, which may raise.
\<close>

text \<open>
  Modelled from the spec: the window shape of the configuration, missing with
  \<^verbatim>\<open>utils.py\<close>. ``Invariant: window shape must be a non-empty ordered sequence of
  positive sizes.''
\<close>

fun positive_sizes :: "pyval list \<Rightarrow> nat list option" where
  "positive_sizes [] = Some []"
| "positive_sizes (PyInt n # vs) =
     (if 0 < n then map_option ((#) (nat n)) (positive_sizes vs) else None)"
| "positive_sizes (v # vs) = None"

text \<open>
  Modelled from the spec: reading the window shape argument, missing with \<^verbatim>\<open>utils.py\<close>;
  a list or tuple that is not empty and holds positive sizes.
\<close>

definition window_shape :: "pyval \<Rightarrow> nat list option" where
  "window_shape v =
     (case v of
        PyList vs \<Rightarrow> (if vs = [] then None else positive_sizes vs)
      | PyTuple vs \<Rightarrow> (if vs = [] then None else positive_sizes vs)
      | _ \<Rightarrow> None)"

text \<open>
  Modelled from the spec: reading the window batch size, missing with \<^verbatim>\<open>utils.py\<close>;
  the ``number of window slices processed together, not the image batch size'', at least
  one.
\<close>

definition window_batch_size :: "pyval \<Rightarrow> nat option" where
  "window_batch_size v =
     (case v of PyInt n \<Rightarrow> (if 0 < n then Some (nat n) else None) | _ \<Rightarrow> None)"

text \<open>
  Modelled from the spec: reading the ``overlap fraction'', missing with \<^verbatim>\<open>utils.py\<close>;
  a fraction of the window, from 0 up to but not including 1.
\<close>

definition overlap_fraction :: "pyval \<Rightarrow> real option" where
  "overlap_fraction v =
     (case v of
        PyFloat r \<Rightarrow> (if 0 \<le> r \<and> r < 1 then Some r else None)
      | PyInt n \<Rightarrow> (if n = 0 then Some 0 else None)
      | _ \<Rightarrow> None)"

text \<open>
  Modelled from the spec: the blend modes, missing with \<^verbatim>\<open>utils.py\<close>; ``one of a small
  enumerated set'', ``default "constant", alternative "gaussian"''.
\<close>

definition blend_mode_ok :: "pyval \<Rightarrow> bool" where
  "blend_mode_ok v = (v = PyStr ''constant'' \<or> v = PyStr ''gaussian'')"

text \<open>
  Modelled from the spec: the step between neighbouring windows along one dimension,
  missing with \<^verbatim>\<open>utils.py\<close>. Neighbouring windows of size \<open>w\<close> share the overlap fraction
  of a window; the step is at least one.
\<close>

definition scan_interval :: "nat \<Rightarrow> real \<Rightarrow> nat" where
  "scan_interval w ov = max 1 (w - nat \<lfloor>ov * real w\<rfloor>)"

text \<open>
  Modelled from the spec: where the windows start along one dimension of size \<open>n\<close>,
  missing with \<^verbatim>\<open>utils.py\<close>. ``Windows that do not evenly tile the input (must cover via
  final partial-stride window)'': the starts advance by the step while a window would end
  before the input does, and a last window ends with the input.
\<close>

definition window_starts :: "nat \<Rightarrow> nat \<Rightarrow> nat \<Rightarrow> nat list" where
  "window_starts n w st =
     (if n \<le> w then [0]
      else map (\<lambda>i. i * st) [0..<(n - w + st - 1) div st] @ [n - w])"

text \<open>
  Modelled from the spec: ``batches windows per the configured window batch size'',
  missing with \<^verbatim>\<open>utils.py\<close>; runs of \<open>b\<close> windows, the last run possibly shorter.
\<close>

definition window_batches :: "'a list \<Rightarrow> nat \<Rightarrow> 'a list list" where
  "window_batches ws b = map (\<lambda>i. take b (drop (i * b) ws)) [0..<(length ws + b - 1) div b]"

text \<open>
  Modelled from the spec: whether a prediction can be blended back, missing with
  \<^verbatim>\<open>utils.py\<close>; it has one entry per window slice given and the spatial shape of the
  window.
\<close>

definition fits_window :: "nat \<Rightarrow> nat list \<Rightarrow> tensor \<Rightarrow> bool" where
  "fits_window m win p = (case shape p of k # c # sp \<Rightarrow> k = m \<and> sp = win | _ \<Rightarrow> False)"

text \<open>
  Modelled from the spec: the tensor given to the model for \<open>k\<close> windows, missing with
  \<^verbatim>\<open>utils.py\<close>. The \<open>k\<close> slices of the input, each with the input's batch and channels and
  the window's spatial shape, are stacked along the first dimension.
\<close>

definition window_stack :: "tensor \<Rightarrow> nat list \<Rightarrow> nat \<Rightarrow> tensor" where
  "window_stack inputs win k = inputs\<lparr>shape := [k * (shape inputs ! 0), shape inputs ! 1] @ win\<rparr>"

text \<open>
  Modelled from the spec: ``invokes the model per batch'', missing with \<^verbatim>\<open>utils.py\<close>.
  An error of the model is passed on (``surfaced unmodified'').
\<close>

fun run_batches ::
  "(tensor \<Rightarrow> error + tensor) \<Rightarrow> tensor \<Rightarrow> nat list \<Rightarrow> nat list list list
     \<Rightarrow> error + tensor list" where
  "run_batches network inputs win [] = Inr []"
| "run_batches network inputs win (b # bs) =
     (case network (window_stack inputs win (length b)) of
        Inl e \<Rightarrow> Inl e
      | Inr p \<Rightarrow>
          if \<not> fits_window (length b * (shape inputs ! 0)) win p
          then Inl (RuntimeError ''a prediction does not have the shape of its windows'')
          else (case run_batches network inputs win bs of
                  Inl e \<Rightarrow> Inl e
                | Inr ps \<Rightarrow> Inr (p # ps)))"

text \<open>
  Modelled from the spec: ``blends overlapping predictions back into a full-size output
  tensor'', missing with \<^verbatim>\<open>utils.py\<close>. The output has the batch size and the spatial sizes
  of the input and the channels of the predictions; the blend mode weighs the values, which
  the embedding leaves out.
\<close>

definition blend :: "tensor \<Rightarrow> tensor list \<Rightarrow> error + tensor" where
  "blend inputs preds =
     (case preds of
        [] \<Rightarrow> Inl (RuntimeError ''no window'')
      | p # ps \<Rightarrow>
          if list_all (\<lambda>q. shape q ! 1 = shape p ! 1) ps
          then Inr \<lparr>shape = [shape inputs ! 0, shape p ! 1] @ drop 2 (shape inputs),
                    dtype = dtype p, device = device p\<rparr>
          else Inl (RuntimeError ''predictions differ in their channels''))"

text \<open>
  Modelled from the spec: the tensor that \<^verbatim>\<open>sliding_window_inference\<close> of
  \<^verbatim>\<open>monai/inferers/utils.py\<close>, which is missing, returns. It ``partitions the input into overlapping windows sized per
  InferenceConfig, batches windows per the configured window batch size, invokes the model
  per batch, and blends overlapping predictions back into a full-size output tensor using
  the configured blend mode''. For a ``window larger than input (must pad or clip)'' the
  window is clipped to the input.
\<close>

definition sliding_window_output ::
  "tensor \<Rightarrow> pyval \<Rightarrow> pyval \<Rightarrow> (tensor \<Rightarrow> error + tensor) \<Rightarrow> pyval \<Rightarrow> pyval
     \<Rightarrow> error + tensor" where
  "sliding_window_output inputs roi_arg sw_arg network overlap_arg blend_arg =
     (case window_shape roi_arg of
        None \<Rightarrow> Inl (AssertionError ''invalid window shape'')
      | Some roi \<Rightarrow>
     (case window_batch_size sw_arg of
        None \<Rightarrow> Inl (AssertionError ''invalid window batch size'')
      | Some b \<Rightarrow>
     (case overlap_fraction overlap_arg of
        None \<Rightarrow> Inl (AssertionError ''invalid overlap'')
      | Some ov \<Rightarrow>
          if \<not> blend_mode_ok blend_arg then Inl (AssertionError ''invalid blend mode'')
          else if length (shape inputs) < 2 \<or> length roi \<noteq> length (shape inputs) - 2
            then Inl (AssertionError ''window shape does not match the input'')
          else
            let spatial = drop 2 (shape inputs);
                win = map2 min roi spatial;
                windows = product_lists
                  (map2 (\<lambda>n w. window_starts n w (scan_interval w ov)) spatial win);
                batches = window_batches windows b
            in (case run_batches network inputs win batches of
                  Inl e \<Rightarrow> Inl e
                | Inr preds \<Rightarrow> blend inputs preds))))"

text \<open>
  Modelled from the spec: \<^verbatim>\<open>sliding_window_inference\<close> of \<^verbatim>\<open>monai/inferers/utils.py\<close>,
  which is missing, as the inferer calls it: the output tensor, and the window shape it
  was handed, left as it was (``all components are stateless functions over immutable
  configuration once constructed'').
\<close>

definition sliding_window_inference ::
  "tensor \<Rightarrow> pyval \<Rightarrow> pyval \<Rightarrow> (tensor \<Rightarrow> error + tensor) \<Rightarrow> pyval \<Rightarrow> pyval
     \<Rightarrow> (error + tensor) \<times> pyval" where
  "sliding_window_inference inputs roi_arg sw_arg network overlap_arg blend_arg =
     (sliding_window_output inputs roi_arg sw_arg network overlap_arg blend_arg, roi_arg)"

text \<open>
  A network keeps the shape of the tensor \<open>t\<close>, with \<open>c\<close> channels, when it returns on
  \<open>t\<close> a tensor of the batch size and the spatial sizes of \<open>t\<close> that has \<open>c\<close> channels (a
  dense prediction, as of a convolutional segmentation network on an input it accepts).
\<close>

definition keeps_shape :: "(tensor \<Rightarrow> error + tensor) \<Rightarrow> tensor \<Rightarrow> nat \<Rightarrow> bool" where
  "keeps_shape network t c = (\<exists>p. network t = Inr p \<and> shape p = (shape t)[1 := c])"


section \<open>Construction of the sliding-window inferer\<close>

lemma py_len_isinstance: "py_len v = Some k \<Longrightarrow> isinstance_list_tuple v"
  by (cases v) simp_all

lemma init_raises_iff:
  "isl (SlidingWindowInferer_init roi sw ov bm) \<longleftrightarrow> \<not> isinstance_list_tuple roi"
  by (simp add: SlidingWindowInferer_init_def)

text \<open>
  Claim C1. A window shape that is neither a list nor a tuple makes the constructor raise
  \<^verbatim>\<open>AssertionError\<close>: the construction yields no inferer object, whatever the other
  arguments are and whether they are given or defaulted, so the error comes before any
  inference call.
\<close>

theorem C1_non_sequence_roi_raises:
  assumes "\<not> isinstance_list_tuple roi"
  shows "SlidingWindowInferer_new (Some roi) sw ov bm =
           Inl (AssertionError ''must specify the roi size for SlidingWindow.'')"
  using assms
  by (simp add: SlidingWindowInferer_new_def SlidingWindowInferer_init_def)

theorem C1_non_sequence_roi_raises_witness:
  "\<not> isinstance_list_tuple (PyInt 96) \<and>
   SlidingWindowInferer_new (Some (PyInt 96)) None None None =
     Inl (AssertionError ''must specify the roi size for SlidingWindow.'')"
  using C1_non_sequence_roi_raises [of "PyInt 96" None None None] by simp

text \<open>
  The constructor takes no input tensor and never reads the length of the window shape.
  A window shape of two sizes, for an input of three spatial dimensions, is accepted and
  stored: no error is raised at construction time.
\<close>

theorem C2_wrong_dimensionality_accepted:
  "py_len (PyTuple [PyInt 64, PyInt 64]) = Some 2 \<and> (2::nat) \<noteq> 3 \<and>
   SlidingWindowInferer_new (Some (PyTuple [PyInt 64, PyInt 64])) None None None =
     Inr \<lparr>roi_size = PyTuple [PyInt 64, PyInt 64], sw_batch_size = PyInt 1,
          overlap = PyFloat 0.25, blend_mode = PyStr ''constant''\<rparr>"
  by (simp add: SlidingWindowInferer_new_def SlidingWindowInferer_init_def)

text \<open>
  Claim C2, amended. A window shape that is a list or a tuple is accepted by the
  constructor whatever its length \<open>k\<close> is, and is stored unchanged, with that length: the
  constructor does not compare the window shape with any dimensionality.
\<close>

theorem C2_any_length_accepted:
  assumes "py_len roi = Some k"
  shows "\<exists>obj. SlidingWindowInferer_new (Some roi) sw ov bm = Inr obj \<and>
               roi_size obj = roi \<and> py_len (roi_size obj) = Some k"
proof -
  from assms have "isinstance_list_tuple roi" by (cases roi) simp_all
  with assms show ?thesis
    by (simp add: SlidingWindowInferer_new_def SlidingWindowInferer_init_def)
qed

theorem C2_any_length_accepted_witness:
  "py_len (PyTuple [PyInt 64, PyInt 64]) = Some 2 \<and>
   (\<exists>obj. SlidingWindowInferer_new (Some (PyTuple [PyInt 64, PyInt 64])) None None None = Inr obj \<and>
          roi_size obj = PyTuple [PyInt 64, PyInt 64] \<and> py_len (roi_size obj) = Some 2)"
  using C2_any_length_accepted [of "PyTuple [PyInt 64, PyInt 64]" 2 None None None] by simp



text \<open>
  Claim C10. The constructor does not validate the window batch size, the overlap or the
  blend mode: with a list or tuple as window shape, construction succeeds for every value
  of the three and stores each unchanged; and whether construction raises depends on the
  window shape alone, through the list-or-tuple test.
\<close>

theorem C10_no_validation_of_other_arguments:
  "(isinstance_list_tuple roi \<longrightarrow>
      SlidingWindowInferer_new (Some roi) (Some sw) (Some ov) (Some bm) =
        Inr \<lparr>roi_size = roi, sw_batch_size = sw, overlap = ov, blend_mode = bm\<rparr>) \<and>
   (isl (SlidingWindowInferer_new (Some roi) sw' ov' bm') \<longleftrightarrow> \<not> isinstance_list_tuple roi)"
  by (simp add: SlidingWindowInferer_new_def SlidingWindowInferer_init_def)

theorem C10_no_validation_of_other_arguments_witness:
  "isinstance_list_tuple (PyList [PyInt 4]) \<and>
   SlidingWindowInferer_new (Some (PyList [PyInt 4]))
       (Some (PyInt (- 3))) (Some (PyFloat 1.5)) (Some (PyStr ''nonsense'')) =
     Inr \<lparr>roi_size = PyList [PyInt 4], sw_batch_size = PyInt (- 3), overlap = PyFloat 1.5,
          blend_mode = PyStr ''nonsense''\<rparr>"
  using C10_no_validation_of_other_arguments
          [of "PyList [PyInt 4]" "PyInt (- 3)" "PyFloat 1.5" "PyStr ''nonsense''" None None None]
  by simp


section \<open>The direct inferer\<close>

text \<open>
  Claim C3. For every input \<open>X\<close> and every model \<open>M\<close>, the direct inferer called on
  \<open>(X, M)\<close> returns exactly \<open>M X\<close>: the input goes to the model as it is, and the model's
  result (a tensor, or the error the model raises) comes back as it is.
\<close>

theorem C3_regular_inferer_returns_model_output:
  "fst (RegularInferer_call self inputs network) = network inputs"
  by (simp add: RegularInferer_call_def)


section \<open>The output shape of sliding-window inference\<close>

lemma window_starts_nonempty: "window_starts n w st \<noteq> []"
  by (simp add: window_starts_def)

lemma product_lists_nonempty:
  "list_all (\<lambda>xs. xs \<noteq> []) xss \<Longrightarrow> product_lists xss \<noteq> []"
proof (induction xss)
  case Nil
  then show ?case by simp
next
  case (Cons xs xss)
  then obtain x xs' where "xs = x # xs'" by (cases xs) auto
  with Cons show ?case by simp
qed

lemma windows_nonempty:
  "product_lists (map2 (\<lambda>n w. window_starts n w (f w)) spatial win) \<noteq> []"
  by (rule product_lists_nonempty) (simp add: list_all_iff window_starts_nonempty split_def)

lemma window_batches_nonempty:
  assumes "ws \<noteq> []" and "0 < b"
  shows "window_batches ws b \<noteq> []"
proof -
  from assms have "b \<le> length ws + b - 1" by (cases ws) auto
  with assms(2) have "0 < (length ws + b - 1) div b"
    by (simp add: div_greater_zero_iff)
  then show ?thesis by (simp add: window_batches_def)
qed

lemma window_batches_elements:
  assumes "0 < b"
  shows "list_all (\<lambda>c. c \<noteq> []) (window_batches ws b)"
proof -
  have "take b (drop (i * b) ws) \<noteq> []" if "i < (length ws + b - 1) div b" for i
  proof -
    from that have "Suc i \<le> (length ws + b - 1) div b" by simp
    with assms have "Suc i * b \<le> length ws + b - 1"
      by (simp add: less_eq_div_iff_mult_less_eq)
    with assms have "i * b < length ws" by simp
    with assms show ?thesis by simp
  qed
  then show ?thesis by (auto simp: window_batches_def list_all_iff)
qed

lemma run_batches_keeps_shape:
  assumes "\<forall>k>0. keeps_shape network (window_stack inputs win k) c"
    and "list_all (\<lambda>b. b \<noteq> []) bs"
  shows "\<exists>ps. run_batches network inputs win bs = Inr ps \<and> length ps = length bs \<and>
              list_all (\<lambda>p. shape p ! 1 = c) ps"
  using assms(2)
proof (induction bs)
  case Nil
  then show ?case by simp
next
  case (Cons b bs)
  then have "0 < length b" by simp
  with assms(1) obtain p where p: "network (window_stack inputs win (length b)) = Inr p"
    "shape p = (shape (window_stack inputs win (length b)))[1 := c]"
    unfolding keeps_shape_def by blast
  from Cons obtain ps where ps: "run_batches network inputs win bs = Inr ps"
    "length ps = length bs" "list_all (\<lambda>p. shape p ! 1 = c) ps" by auto
  from p ps show ?case by (simp add: fits_window_def window_stack_def)
qed

lemma blend_same_channels:
  assumes "preds \<noteq> []" and "list_all (\<lambda>p. shape p ! 1 = c) preds"
  shows "\<exists>y. blend inputs preds = Inr y \<and>
             shape y = [shape inputs ! 0, c] @ drop 2 (shape inputs)"
proof -
  from assms(1) obtain p ps where "preds = p # ps" by (cases preds) auto
  with assms(2) show ?thesis
    by (auto simp: blend_def list_all_iff)
qed

lemma map2_min_le: "list_all2 (\<le>) roi sp \<Longrightarrow> map2 min roi sp = (roi :: nat list)"
  by (induction rule: list_all2_induct) simp_all

lemma sliding_window_output_keeps_shape:
  assumes net: "\<forall>k>0. keeps_shape network (window_stack inputs roi k) c"
    and roi: "window_shape roi_v = Some roi"
    and sw: "window_batch_size sw_v = Some b"
    and ov: "overlap_fraction ov_v = Some ov"
    and bm: "blend_mode_ok bm_v"
    and rank: "2 \<le> length (shape inputs)"
    and le: "list_all2 (\<le>) roi (drop 2 (shape inputs))"
  shows "\<exists>y. sliding_window_output inputs roi_v sw_v network ov_v bm_v = Inr y \<and>
             shape y = [shape inputs ! 0, c] @ drop 2 (shape inputs)"
proof -
  let ?spatial = "drop 2 (shape inputs)"
  let ?windows = "product_lists
    (map2 (\<lambda>n w. window_starts n w (scan_interval w ov)) ?spatial roi)"
  let ?batches = "window_batches ?windows b"
  from le have len: "length roi = length (shape inputs) - 2"
    by (simp add: list_all2_lengthD)
  from le have win: "map2 min roi ?spatial = roi" by (rule map2_min_le)
  from sw have b: "0 < b"
    by (auto simp: window_batch_size_def split: pyval.splits if_splits)
  have ne: "?batches \<noteq> []"
    by (rule window_batches_nonempty [OF windows_nonempty b])
  from run_batches_keeps_shape [OF net window_batches_elements [OF b], of ?windows]
  obtain ps where ps: "run_batches network inputs roi ?batches = Inr ps"
    "length ps = length ?batches" "list_all (\<lambda>p. shape p ! 1 = c) ps" by blast
  from ne ps(2) have "ps \<noteq> []" by auto
  from blend_same_channels [OF this ps(3), of inputs]
  obtain y where y: "blend inputs ps = Inr y" "shape y = [shape inputs ! 0, c] @ ?spatial"
    by blast
  have "sliding_window_output inputs roi_v sw_v network ov_v bm_v = Inr y"
    using roi sw ov bm rank len ps(1) y(1) win
    by (simp add: sliding_window_output_def Let_def)
  with y(2) show ?thesis by blast
qed

lemma shape_channel_update:
  assumes "2 \<le> length s"
  shows "s[1 := c] = [s ! 0, c] @ drop 2 s"
proof -
  from assms obtain a b r where "s = a # b # r"
    by (cases s; cases "tl s") auto
  then show ?thesis by simp
qed

text \<open>
  The claim speaks of every model. A model that pools every input to the spatial size
  \<open>2 \<times> 2\<close> gives, on an input of shape \<open>[1, 1, 4, 4]\<close> with window shape \<open>[2, 2]\<close>, a
  sliding-window output of the full shape \<open>[1, 1, 4, 4]\<close> (each window's prediction has
  the window's shape and is blended back at its place), and a direct output of shape
  \<open>[1, 1, 2, 2]\<close>: the two shapes differ, although the window is smaller than the input.
\<close>

theorem C4_pooling_model_shapes_differ:
  "fst (SlidingWindowInferer_call sliding_window_inference
         \<lparr>roi_size = PyList [PyInt 2, PyInt 2], sw_batch_size = PyInt 1,
          overlap = PyFloat 0.25, blend_mode = PyStr ''constant''\<rparr>
         \<lparr>shape = [1, 1, 4, 4], dtype = Float32, device = CPU\<rparr>
         (\<lambda>t. Inr (t\<lparr>shape := take 2 (shape t) @ [2, 2]\<rparr>))) =
     Inr \<lparr>shape = [1, 1, 4, 4], dtype = Float32, device = CPU\<rparr> \<and>
   fst (RegularInferer_call RegularInferer_object
         \<lparr>shape = [1, 1, 4, 4], dtype = Float32, device = CPU\<rparr>
         (\<lambda>t. Inr (t\<lparr>shape := take 2 (shape t) @ [2, 2]\<rparr>))) =
     (Inr \<lparr>shape = [1, 1, 2, 2], dtype = Float32, device = CPU\<rparr> :: error + tensor)"
  by code_simp

text \<open>
  Claim C4, amended. For every model that keeps the batch and spatial sizes of the input
  and of every stack of windows it is given, with a fixed number \<open>c\<close> of output channels,
  every input with a batch and a channel dimension, and every valid configuration whose
  window sizes are each at most the corresponding spatial size of the input,
  sliding-window inference returns a tensor, direct inference returns a tensor, and the
  two have the same shape. Nothing is asked of the model on other tensors: it may accept
  one channel count and one dimensionality only.
\<close>

theorem C4_same_shape_for_shape_keeping_model:
  assumes "keeps_shape network inputs c"
    and "\<forall>k>0. keeps_shape network (window_stack inputs roi k) c"
    and "window_shape (roi_size self) = Some roi"
    and "list_all2 (\<le>) roi (drop 2 (shape inputs))"
    and "window_batch_size (sw_batch_size self) = Some b"
    and "overlap_fraction (overlap self) = Some ov"
    and "blend_mode_ok (blend_mode self)"
    and "2 \<le> length (shape inputs)"
  shows "\<exists>y z. fst (SlidingWindowInferer_call sliding_window_inference self inputs network) = Inr y \<and>
               fst (RegularInferer_call r inputs network) = Inr z \<and>
               shape y = shape z"
proof -
  from sliding_window_output_keeps_shape [OF assms(2,3,5,6,7,8,4)]
  obtain y where y: "sliding_window_output inputs (roi_size self) (sw_batch_size self) network
                       (overlap self) (blend_mode self) = Inr y"
    "shape y = [shape inputs ! 0, c] @ drop 2 (shape inputs)" by blast
  from assms(1) obtain z where z: "network inputs = Inr z" "shape z = (shape inputs)[1 := c]"
    unfolding keeps_shape_def by blast
  from y z shape_channel_update [OF assms(8), of c] show ?thesis
    by (simp add: SlidingWindowInferer_call_def sliding_window_inference_def
        RegularInferer_call_def)
qed

theorem C4_same_shape_for_shape_keeping_model_witness:
  "keeps_shape
     (\<lambda>t. if length (shape t) = 4 \<and> shape t ! 1 = 1 then Inr (t\<lparr>shape := (shape t)[1 := 3]\<rparr>)
          else Inl (RuntimeError ''expected a 4-dimensional input with 1 channel''))
     \<lparr>shape = [1, 1, 4, 4], dtype = Float32, device = CPU\<rparr> 3 \<and>
   window_shape (PyTuple [PyInt 2, PyInt 2]) = Some [2, 2] \<and>
   list_all2 (\<le>) [2, 2] (drop 2 (shape \<lparr>shape = [1, 1, 4, 4], dtype = Float32, device = CPU\<rparr>)) \<and>
   (\<exists>y z. fst (SlidingWindowInferer_call sliding_window_inference
                 \<lparr>roi_size = PyTuple [PyInt 2, PyInt 2], sw_batch_size = PyInt 4,
                  overlap = PyFloat 0.25, blend_mode = PyStr ''constant''\<rparr>
                 \<lparr>shape = [1, 1, 4, 4], dtype = Float32, device = CPU\<rparr>
                 (\<lambda>t. if length (shape t) = 4 \<and> shape t ! 1 = 1
                      then Inr (t\<lparr>shape := (shape t)[1 := 3]\<rparr>)
                      else Inl (RuntimeError ''expected a 4-dimensional input with 1 channel''))) = Inr y \<and>
          fst (RegularInferer_call RegularInferer_object
                 \<lparr>shape = [1, 1, 4, 4], dtype = Float32, device = CPU\<rparr>
                 (\<lambda>t. if length (shape t) = 4 \<and> shape t ! 1 = 1
                      then Inr (t\<lparr>shape := (shape t)[1 := 3]\<rparr>)
                      else Inl (RuntimeError ''expected a 4-dimensional input with 1 channel''))) = Inr z \<and>
          shape y = shape z \<and> shape y = [1, 3, 4, 4])"
proof -
  let ?net = "\<lambda>t. if length (shape t) = 4 \<and> shape t ! 1 = 1
                  then Inr (t\<lparr>shape := (shape t)[1 := 3]\<rparr>)
                  else Inl (RuntimeError ''expected a 4-dimensional input with 1 channel'')"
  let ?self = "\<lparr>roi_size = PyTuple [PyInt 2, PyInt 2], sw_batch_size = PyInt 4,
                  overlap = PyFloat 0.25, blend_mode = PyStr ''constant''\<rparr>"
  let ?x = "\<lparr>shape = [1, 1, 4, 4], dtype = Float32, device = CPU\<rparr>"
  have h1: "keeps_shape ?net ?x 3" by (simp add: keeps_shape_def)
  have h2: "\<forall>k>0. keeps_shape ?net (window_stack ?x [2, 2] k) 3"
    by (simp add: keeps_shape_def window_stack_def)
  have h3: "window_shape (roi_size ?self) = Some [2, 2]" by (simp add: window_shape_def)
  have h4: "list_all2 (\<le>) [2, 2] (drop 2 (shape ?x))" by simp
  have h5: "window_batch_size (sw_batch_size ?self) = Some 4"
    by (simp add: window_batch_size_def)
  have h6: "overlap_fraction (overlap ?self) = Some 0.25" by (simp add: overlap_fraction_def)
  have h7: "blend_mode_ok (blend_mode ?self)" by (simp add: blend_mode_ok_def)
  have h8: "2 \<le> length (shape ?x)" by simp
  from C4_same_shape_for_shape_keeping_model [OF h1 h2 h3 h4 h5 h6 h7 h8, of RegularInferer_object]
  obtain y z where
    yz: "fst (SlidingWindowInferer_call sliding_window_inference ?self ?x ?net) = Inr y"
      "fst (RegularInferer_call RegularInferer_object ?x ?net) = Inr z" "shape y = shape z"
    by blast
  from yz(2) have "shape z = [1, 3, 4, 4]" by (auto simp: RegularInferer_call_def)
  with yz have ex: "\<exists>y z.
     fst (SlidingWindowInferer_call sliding_window_inference ?self ?x ?net) = Inr y \<and>
     fst (RegularInferer_call RegularInferer_object ?x ?net) = Inr z \<and> shape y = shape z \<and>
     shape y = [1, 3, 4, 4]"
    by (intro exI [of _ y] exI [of _ z]) simp
  from h1 h3 h4 ex show ?thesis by simp
qed

section \<open>The Flatten layer\<close>

text \<open>
  For an empty batch, an input of shape \<open>[0, 3]\<close>, the layer asks for the view
  \<open>(0, -1)\<close>, in which the size standing for \<open>-1\<close> could be any number: the framework
  refuses it, and the forward pass raises instead of returning a tensor of shape
  \<open>[0, 3]\<close>.
\<close>

theorem C5_empty_batch_raises:
  "fst (Flatten_forward Flatten_object \<lparr>shape = [0, 3], dtype = Float32, device = CPU\<rparr>) =
     Inl (RuntimeError ''cannot reshape tensor of 0 elements: the unspecified dimension -1 is ambiguous'')"
  by (simp add: Flatten_forward_def size_at_def py_index_def view_def infer_size_def numel_def)

text \<open>
  Claim C5, amended. For every input tensor of shape \<open>[B, d1, d2, ...]\<close> with a batch
  that is not empty (\<open>B \<ge> 1\<close>), the forward pass of the Flatten layer returns the tensor
  with shape \<open>[B, d1 * d2 * ...]\<close>: the batch dimension is kept and the others are
  flattened into one.
\<close>

theorem C5_flatten_shape:
  assumes "shape x = B # ds" and "0 < B"
  shows "fst (Flatten_forward self x) = Inr (x\<lparr>shape := [B, prod_list ds]\<rparr>)"
  using assms
  by (simp add: Flatten_forward_def size_at_def py_index_def view_def infer_size_def numel_def)

theorem C5_flatten_shape_witness:
  "shape \<lparr>shape = [2, 3, 4], dtype = Float32, device = CPU\<rparr> = 2 # [3, 4] \<and> (0::nat) < 2 \<and>
   fst (Flatten_forward Flatten_object \<lparr>shape = [2, 3, 4], dtype = Float32, device = CPU\<rparr>) =
     Inr \<lparr>shape = [2, 12], dtype = Float32, device = CPU\<rparr>"
  using C5_flatten_shape
          [of "\<lparr>shape = [2, 3, 4], dtype = Float32, device = CPU\<rparr>" 2 "[3, 4]" Flatten_object]
  by simp


section \<open>The SkipConnection layer\<close>

lemma py_index_Inr_iff:
  "py_index xs i = Inr v \<longleftrightarrow>
     (0 \<le> i \<and> i < int (length xs) \<and> v = xs ! nat i) \<or>
     (i < 0 \<and> - int (length xs) \<le> i \<and> v = xs ! nat (int (length xs) + i))"
  by (auto simp: py_index_def Let_def)

lemma maybe_wrap_dim_Inr_iff:
  "maybe_wrap_dim d n = Inr k \<longleftrightarrow>
     (0 \<le> d \<and> d < int n \<and> k = nat d) \<or> (d < 0 \<and> - int n \<le> d \<and> k = nat (int n + d))"
  by (auto simp: maybe_wrap_dim_def)

lemma py_index_wrap:
  "py_index xs d = Inr v \<longleftrightarrow>
     (\<exists>k. maybe_wrap_dim d (length xs) = Inr k \<and> k < length xs \<and> v = xs ! k)"
  by (auto simp: py_index_Inr_iff maybe_wrap_dim_Inr_iff)

lemma maybe_wrap_dim_less: "maybe_wrap_dim d n = Inr k \<Longrightarrow> k < n"
  by (auto simp: maybe_wrap_dim_Inr_iff)

lemma same_exceptI:
  assumes "length s = length t" and "\<forall>i<length s. i \<noteq> k \<longrightarrow> t ! i = s ! i"
  shows "same_except k s t"
proof -
  have "s[k := 0] = t[k := 0]"
  proof (rule nth_equalityI)
    show "length (s[k := 0]) = length (t[k := 0])" using assms(1) by simp
  next
    fix i assume "i < length (s[k := 0])"
    with assms show "s[k := 0] ! i = t[k := 0] ! i"
      by (cases "i = k") simp_all
  qed
  with assms(1) show ?thesis by (simp add: same_except_def)
qed

lemma torch_cat_pair_returns:
  assumes k: "maybe_wrap_dim d (length (shape x)) = Inr k"
    and len: "length (shape s) = length (shape x)"
    and off: "\<forall>i<length (shape x). i \<noteq> k \<longrightarrow> shape s ! i = shape x ! i"
    and dev: "device s = device x"
  shows "\<exists>y. torch_cat [x, s] d = Inr y \<and>
             shape y = (shape x)[k := shape x ! k + shape s ! k]"
proof -
  from k have kn: "k < length (shape x)" by (rule maybe_wrap_dim_less)
  then have nx: "shape x \<noteq> []" by auto
  with len have ns: "shape s \<noteq> []" by auto
  have se: "same_except k (shape x) (shape s)"
    using len off by (intro same_exceptI) auto
  show ?thesis
  proof (cases "cat_should_skip x")
    case sx: True
    then have x0: "shape x = [0]" by (simp add: cat_should_skip_def)
    with kn have k0: "k = 0" by simp
    from x0 len obtain n where s1: "shape s = [n]" by (cases "shape s") auto
    show ?thesis
    proof (cases "cat_should_skip s")
      case True
      with sx x0 k0 nx ns show ?thesis
        by (simp add: torch_cat_def cat_should_skip_def)
    next
      case False
      with sx x0 k0 nx ns s1 k len show ?thesis
        by (simp add: torch_cat_def cat_should_skip_def)
    qed
  next
    case nsx: False
    show ?thesis
    proof (cases "cat_should_skip s")
      case True
      then have s0: "shape s = [0]" by (simp add: cat_should_skip_def)
      with len kn have "k = 0" by simp
      with nsx True nx ns k s0 len show ?thesis
        by (cases "shape x") (auto simp add: torch_cat_def cat_should_skip_def)
    next
      case False
      with nsx nx ns k len se dev show ?thesis
        by (simp add: torch_cat_def cat_should_skip_def)
    qed
  qed
qed

text \<open>
  Claim C6. For every input \<open>x\<close> on which the submodule returns a tensor \<open>s\<close> that can be
  concatenated with \<open>x\<close> (as many dimensions, the sizes of \<open>x\<close> off the concatenation
  axis, the device of \<open>x\<close>; otherwise there is no output, the framework raises), with \<open>k\<close>
  the configured concatenation axis of \<open>x\<close> (which may be given as a negative index): the
  forward pass of the SkipConnection layer returns a tensor, whose size on axis \<open>k\<close> is
  the size of \<open>x\<close> plus the size of \<open>s\<close> on that axis, and which has the size of \<open>x\<close> on
  every other axis.
\<close>

theorem C6_skip_connection_shape:
  assumes "Module_call (submodule self) x = (Inr s, m)"
    and "maybe_wrap_dim (cat_dim self) (length (shape x)) = Inr k"
    and "length (shape s) = length (shape x)"
    and "\<forall>i<length (shape x). i \<noteq> k \<longrightarrow> shape s ! i = shape x ! i"
    and "device s = device x"
  shows "\<exists>y. fst (SkipConnection_forward self x) = Inr y \<and>
             length (shape y) = length (shape x) \<and>
             shape y ! k = shape x ! k + shape s ! k \<and>
             (\<forall>i<length (shape x). i \<noteq> k \<longrightarrow> shape y ! i = shape x ! i)"
proof -
  from torch_cat_pair_returns [OF assms(2-5)]
  obtain y where y: "torch_cat [x, s] (cat_dim self) = Inr y"
    "shape y = (shape x)[k := shape x ! k + shape s ! k]" by blast
  from assms(2) have "k < length (shape x)" by (rule maybe_wrap_dim_less)
  with y assms(1) show ?thesis
    by (simp add: SkipConnection_forward_def)
qed

theorem C6_skip_connection_shape_witness:
  "Module_call \<lparr>module_state = (), module_forward = (\<lambda>st t. (Inr (t\<lparr>shape := (shape t)[1 := 5]\<rparr>), st))\<rparr>
     \<lparr>shape = [2, 3, 4, 4], dtype = Float32, device = CPU\<rparr> =
     (Inr \<lparr>shape = [2, 5, 4, 4], dtype = Float32, device = CPU\<rparr>,
      \<lparr>module_state = (), module_forward = (\<lambda>st t. (Inr (t\<lparr>shape := (shape t)[1 := 5]\<rparr>), st))\<rparr>) \<and>
   maybe_wrap_dim 1 4 = Inr 1 \<and>
   (\<exists>y. fst (SkipConnection_forward
        \<lparr>submodule = \<lparr>module_state = (), module_forward = (\<lambda>st t. (Inr (t\<lparr>shape := (shape t)[1 := 5]\<rparr>), st))\<rparr>,
         cat_dim = 1\<rparr>
        \<lparr>shape = [2, 3, 4, 4], dtype = Float32, device = CPU\<rparr>) = Inr y \<and>
        shape y = [2, 8, 4, 4])"
proof -
  let ?m = "\<lparr>module_state = (), module_forward = (\<lambda>st t. (Inr (t\<lparr>shape := (shape t)[1 := 5]\<rparr>), st))\<rparr>"
  let ?self = "\<lparr>submodule = ?m, cat_dim = 1\<rparr>"
  let ?x = "\<lparr>shape = [2, 3, 4, 4], dtype = Float32, device = CPU\<rparr>"
  let ?s = "\<lparr>shape = [2, 5, 4, 4], dtype = Float32, device = CPU\<rparr>"
  have g1: "Module_call ?m ?x = (Inr ?s, ?m)" by (simp add: Module_call_def)
  have g2: "maybe_wrap_dim 1 4 = Inr 1" by (simp add: maybe_wrap_dim_def)
  from g1 have h1: "Module_call (submodule ?self) ?x = (Inr ?s, ?m)" by simp
  have h2: "maybe_wrap_dim (cat_dim ?self) (length (shape ?x)) = Inr 1"
    by (simp add: maybe_wrap_dim_def)
  have h3: "length (shape ?s) = length (shape ?x)" by simp
  have h4: "\<forall>i<length (shape ?x). i \<noteq> 1 \<longrightarrow> shape ?s ! i = shape ?x ! i"
    by (simp add: nth_Cons split: nat.splits)
  have h5: "device ?s = device ?x" by simp
  from C6_skip_connection_shape [OF h1 h2 h3 h4 h5]
  obtain y where y: "fst (SkipConnection_forward ?self ?x) = Inr y"
    "length (shape y) = length (shape ?x)"
    "shape y ! 1 = shape ?x ! 1 + shape ?s ! 1"
    "\<forall>i<length (shape ?x). i \<noteq> 1 \<longrightarrow> shape y ! i = shape ?x ! i" by blast
  from y(2) obtain a b c d where abcd: "shape y = [a, b, c, d]"
    by (cases "shape y"; cases "tl (shape y)"; cases "tl (tl (shape y))";
        cases "tl (tl (tl (shape y)))") auto
  from y(4) have "shape y ! 0 = 2" "shape y ! 2 = 4" "shape y ! 3 = 4" by simp_all
  with y(3) abcd have "shape y = [2, 8, 4, 4]" by simp
  with y(1) have "\<exists>y. fst (SkipConnection_forward ?self ?x) = Inr y \<and> shape y = [2, 8, 4, 4]"
    by blast
  with g1 g2 show ?thesis by blast
qed

text \<open>
  Whenever the forward pass returns at all, also when the framework has skipped a tensor
  of shape \<open>[0]\<close> with another number of dimensions, the sizes on the concatenation axis
  add up as far as both exist.
\<close>

lemma torch_cat_pair_shape:
  assumes "torch_cat [x, s] d = Inr y"
    and "maybe_wrap_dim d (length (shape x)) = Inr k" and "k < length (shape x)"
    and "maybe_wrap_dim d (length (shape s)) = Inr j" and "j < length (shape s)"
  shows "py_index (shape y) d = Inr (shape x ! k + shape s ! j) \<and>
         (\<forall>i<length (shape x). i \<noteq> k \<longrightarrow> i < length (shape y) \<and> shape y ! i = shape x ! i)"
proof (cases "cat_should_skip x")
  case sx: True
  show ?thesis
  proof (cases "cat_should_skip s")
    case True
    with sx assms show ?thesis
      by (auto simp: torch_cat_def cat_should_skip_def py_index_wrap maybe_wrap_dim_Inr_iff
          split: if_splits)
  next
    case False
    with sx assms show ?thesis
      by (auto simp: torch_cat_def cat_should_skip_def py_index_wrap maybe_wrap_dim_Inr_iff
          split: if_splits sum.splits)
  qed
next
  case nx: False
  show ?thesis
  proof (cases "cat_should_skip s")
    case True
    with nx assms show ?thesis
      by (auto simp: torch_cat_def cat_should_skip_def py_index_wrap maybe_wrap_dim_Inr_iff
          split: if_splits sum.splits)
  next
    case False
    with nx assms show ?thesis
      by (auto simp: torch_cat_def cat_should_skip_def py_index_wrap same_except_def
          maybe_wrap_dim_Inr_iff split: if_splits sum.splits)
  qed
qed

lemma SkipConnection_forward_result_shape:
  assumes "fst (SkipConnection_forward self x) = Inr y"
    and "fst (Module_call (submodule self) x) = Inr s"
    and "py_index (shape x) (cat_dim self) = Inr a"
    and "py_index (shape s) (cat_dim self) = Inr b"
  shows "py_index (shape y) (cat_dim self) = Inr (a + b) \<and>
         (\<exists>k. maybe_wrap_dim (cat_dim self) (length (shape x)) = Inr k \<and>
              (\<forall>i<length (shape x). i \<noteq> k \<longrightarrow>
                  i < length (shape y) \<and> shape y ! i = shape x ! i))"
proof -
  from assms(1,2) have cat: "torch_cat [x, s] (cat_dim self) = Inr y"
    by (auto simp: SkipConnection_forward_def split_def)
  from assms(3) obtain k where k: "maybe_wrap_dim (cat_dim self) (length (shape x)) = Inr k"
    "k < length (shape x)" "a = shape x ! k" by (auto simp: py_index_wrap)
  from assms(4) obtain j where j: "maybe_wrap_dim (cat_dim self) (length (shape s)) = Inr j"
    "j < length (shape s)" "b = shape s ! j" by (auto simp: py_index_wrap)
  from torch_cat_pair_shape [OF cat k(1,2) j(1,2)] k j show ?thesis by blast
qed


section \<open>The GaussianFilter layer\<close>











section \<open>State after construction\<close>




end
